theory Spec2Isabelle
  imports Main
begin

section \<open>The RAG chat application (app.py) as a state-passing model\<close>

text \<open>
  The application is a Streamlit script: every user interaction re-executes the script
  from the top against the session state, and every piece of real work is a call to the
  hosted service. The model keeps the session state as a record that each function takes
  and returns, gives every function of the script the replies of the hosted service as an
  explicit argument (\<open>service\<close>), and returns the list of effects the function performed:
  the calls issued to the service, the sleeps, and the messages shown to the user.
  Rendering calls that neither touch the session state nor report an outcome (spinners,
  markdown, chat bubbles) are left out.
\<close>

subsection \<open>Data\<close>

text \<open>Identifiers issued by the service are Python strings; so are run statuses.\<close>

type_synonym handle = string

text \<open>A raised exception is represented by the text \<open>str(e)\<close> that the handlers print.\<close>

type_synonym exn = string

text \<open>An entry of \<open>st.session_state.messages\<close>: the dict \<open>{"role": .., "content": ..}\<close>.\<close>

record chat_message =
  role :: string
  content :: string

text \<open>\<open>st.session_state\<close>, with the four keys initialised at lines 16-23.\<close>

record session_state =
  messages :: "chat_message list"
  assistant_id :: "handle option"
  thread_id :: "handle option"
  vector_store_id :: "handle option"

definition initial_session_state :: session_state where
  "initial_session_state =
     \<lparr>messages = [], assistant_id = None, thread_id = None, vector_store_id = None\<rparr>"

text \<open>An uploaded file: \<open>(uploaded_file.name, uploaded_file.getvalue())\<close>.\<close>

type_synonym uploaded_file = "string \<times> string"

text \<open>The run object returned by \<open>runs.create\<close> and \<open>runs.retrieve\<close>.\<close>

record run =
  run_id :: handle
  status :: string

text \<open>
  A content block of a remote message: \<open>get_assistant_response\<close> reads
  \<open>.text.value\<close> of it, which only a text block has. A remote message is the list of
  its content blocks; \<open>messages.list(..).data\<close> is a list of remote messages, most recent
  first.
\<close>

datatype content_block = TextContent string | NonTextContent

type_synonym thread_message = "content_block list"

text \<open>
  The replies of the hosted service during one execution of the script. Each endpoint is
  called at most once per execution, except \<open>files.create\<close> (once per uploaded file,
  indexed by the position of the file) and \<open>runs.retrieve\<close> (once per iteration of the
  polling loop, indexed by the number of fetches already made). \<open>Inl e\<close> is a call that
  raises an exception with text \<open>e\<close>.
\<close>

record service =
  vector_stores_create :: "exn + handle"
  files_create :: "nat \<Rightarrow> exn + handle"
  upload_and_poll :: "exn + unit"
  assistants_create :: "exn + handle"
  threads_create :: "exn + handle"
  messages_create :: "exn + unit"
  runs_create :: "exn + run"
  runs_retrieve :: "nat \<Rightarrow> exn + run"
  messages_list :: "exn + thread_message list"

text \<open>
  What a function of the script does besides updating the session state: the calls to the
  service with the arguments that matter here, the sleeps, and the messages of
  \<open>st.error\<close>, \<open>st.sidebar.error\<close> and \<open>st.sidebar.success\<close> (without their emoji).
\<close>

datatype effect =
    VectorStoresCreate
  | FilesCreate string string
  | UploadAndPoll handle "handle list"
  | AssistantsCreate handle
  | ThreadsCreate
  | MessagesCreate "handle option" string
  | RunsCreate "handle option" "handle option"
  | Sleep nat
  | RunsRetrieve "handle option" handle
  | MessagesList "handle option"
  | StError string
  | SidebarError string
  | SidebarSuccess string

text \<open>Python's truth value of an \<open>Optional[str]\<close>: \<open>None\<close> and \<open>""\<close> are false.\<close>

fun truthy :: "string option \<Rightarrow> bool" where
  "truthy None = False"
| "truthy (Some v) = (v \<noteq> [])"

subsection \<open>Provisioning (lines 46-111)\<close>

text \<open>
  The list comprehension of lines 63-68: one \<open>files.create\<close> per file, in order; the
  first call that raises ends the comprehension.
\<close>

fun create_files :: "service \<Rightarrow> nat \<Rightarrow> uploaded_file list \<Rightarrow> (exn + handle list) \<times> effect list" where
  "create_files svc i [] = (Inr [], [])"
| "create_files svc i ((fname, fvalue) # fs) =
     (case files_create svc i of
        Inl e \<Rightarrow> (Inl e, [FilesCreate fname fvalue])
      | Inr f \<Rightarrow>
          (case create_files svc (Suc i) fs of
             (Inl e, log) \<Rightarrow> (Inl e, FilesCreate fname fvalue # log)
           | (Inr hs, log) \<Rightarrow> (Inr (f # hs), FilesCreate fname fvalue # log)))"

definition upload_files_to_vector_store ::
  "service \<Rightarrow> uploaded_file list \<Rightarrow> session_state \<Rightarrow> handle option \<times> session_state \<times> effect list" where
  "upload_files_to_vector_store svc uploaded_files s =
     (case vector_stores_create svc of
        Inl e \<Rightarrow> (None, s, [VectorStoresCreate, StError (''Error uploading files: '' @ e)])
      | Inr vs \<Rightarrow>
          (case create_files svc 0 uploaded_files of
             (Inl e, log) \<Rightarrow>
               (None, s, VectorStoresCreate # log @ [StError (''Error uploading files: '' @ e)])
           | (Inr hs, log) \<Rightarrow>
               (case upload_and_poll svc of
                  Inl e \<Rightarrow>
                    (None, s, VectorStoresCreate # log @
                       [UploadAndPoll vs hs, StError (''Error uploading files: '' @ e)])
                | Inr _ \<Rightarrow>
                    (Some vs, s\<lparr>vector_store_id := Some vs\<rparr>,
                     VectorStoresCreate # log @ [UploadAndPoll vs hs]))))"

definition create_assistant ::
  "service \<Rightarrow> handle \<Rightarrow> session_state \<Rightarrow> handle option \<times> session_state \<times> effect list" where
  "create_assistant svc vs s =
     (case assistants_create svc of
        Inl e \<Rightarrow> (None, s, [AssistantsCreate vs, StError (''Error creating assistant: '' @ e)])
      | Inr a \<Rightarrow> (Some a, s\<lparr>assistant_id := Some a\<rparr>, [AssistantsCreate vs]))"

definition create_thread ::
  "service \<Rightarrow> session_state \<Rightarrow> handle option \<times> session_state \<times> effect list" where
  "create_thread svc s =
     (case threads_create svc of
        Inl e \<Rightarrow> (None, s, [ThreadsCreate, StError (''Error creating thread: '' @ e)])
      | Inr t \<Rightarrow> (Some t, s\<lparr>thread_id := Some t\<rparr>, [ThreadsCreate]))"

subsection \<open>Turn execution (lines 113-151)\<close>

text \<open>
  The \<open>while\<close> loop of lines 131-136. It has no bound, so it is a partial function: the
  value \<open>None\<close> is a loop that never exits. \<open>n\<close> counts the fetches already made. The
  result is the run the loop exits with, or the exception a fetch raised, and the sleeps
  and fetches performed.
\<close>

partial_function (option) wait_for_completion ::
  "service \<Rightarrow> handle option \<Rightarrow> nat \<Rightarrow> run \<Rightarrow> ((exn + run) \<times> effect list) option" where
  "wait_for_completion svc tid n r =
     (if status r \<in> set [''queued'', ''in_progress''] then
        (case runs_retrieve svc n of
           Inl e \<Rightarrow> Some (Inl e, [Sleep 1, RunsRetrieve tid (run_id r)])
         | Inr r' \<Rightarrow>
             Option.bind (wait_for_completion svc tid (Suc n) r')
               (\<lambda>(res, log). Some (res, Sleep 1 # RunsRetrieve tid (run_id r) # log)))
      else Some (Inr r, []))"

text \<open>
  \<open>messages.data[0].content[0].text.value\<close> (line 144): an empty list raises
  \<open>IndexError\<close>, a block without \<open>text\<close> raises \<open>AttributeError\<close>.
\<close>

fun first_text :: "thread_message list \<Rightarrow> exn + string" where
  "first_text [] = Inl ''list index out of range''"
| "first_text ([] # ms) = Inl ''list index out of range''"
| "first_text ((TextContent v # bs) # ms) = Inr v"
| "first_text ((NonTextContent # bs) # ms) = Inl ''object has no attribute text''"

definition get_assistant_response ::
  "service \<Rightarrow> string \<Rightarrow> session_state \<Rightarrow> (string option \<times> effect list) option" where
  "get_assistant_response svc message s =
     (let tid = thread_id s; err = (\<lambda>e. StError (''Error getting response: '' @ e)) in
      case messages_create svc of
        Inl e \<Rightarrow> Some (None, [MessagesCreate tid message, err e])
      | Inr _ \<Rightarrow>
          (case runs_create svc of
             Inl e \<Rightarrow>
               Some (None, [MessagesCreate tid message, RunsCreate tid (assistant_id s), err e])
           | Inr r0 \<Rightarrow>
               (case wait_for_completion svc tid 0 r0 of
                  None \<Rightarrow> None
                | Some (Inl e, log) \<Rightarrow>
                    Some (None, MessagesCreate tid message # RunsCreate tid (assistant_id s) #
                                log @ [err e])
                | Some (Inr r, log) \<Rightarrow>
                    (if status r = ''completed'' then
                       (case messages_list svc of
                          Inl e \<Rightarrow>
                            Some (None, MessagesCreate tid message #
                                    RunsCreate tid (assistant_id s) # log @ [MessagesList tid, err e])
                        | Inr data \<Rightarrow>
                            (case first_text data of
                               Inl e \<Rightarrow>
                                 Some (None, MessagesCreate tid message #
                                    RunsCreate tid (assistant_id s) # log @ [MessagesList tid, err e])
                             | Inr v \<Rightarrow>
                                 Some (Some v, MessagesCreate tid message #
                                    RunsCreate tid (assistant_id s) # log @ [MessagesList tid])))
                     else
                       Some (None, MessagesCreate tid message # RunsCreate tid (assistant_id s) #
                               log @ [StError (''Run failed with status: '' @ status r)])))))"

subsection \<open>The handlers of the script (lines 165-220)\<close>

text \<open>The body of the setup button (lines 167-186).\<close>

definition setup_handler ::
  "service \<Rightarrow> uploaded_file list \<Rightarrow> session_state \<Rightarrow> session_state \<times> effect list" where
  "setup_handler svc uploaded_files s =
     (case upload_files_to_vector_store svc uploaded_files s of
        (vs, s1, log1) \<Rightarrow>
          if truthy vs then
            (case create_assistant svc (the vs) s1 of
               (a, s2, log2) \<Rightarrow>
                 if truthy a then
                   (case create_thread svc s2 of
                      (t, s3, log3) \<Rightarrow>
                        if truthy t
                        then (s3, log1 @ log2 @ log3 @ [SidebarSuccess ''RAG System Ready!''])
                        else (s3, log1 @ log2 @ log3 @
                                [SidebarError ''Failed to create conversation thread'']))
                 else (s2, log1 @ log2 @ [SidebarError ''Failed to create assistant'']))
          else (s1, log1 @ [SidebarError ''Failed to upload files'']))"

text \<open>
  The body of the chat input (lines 199-213), for a submitted \<open>prompt\<close>. The user's turn
  is appended before the reply is requested; the reply is appended only when it is true
  as a Python value.
\<close>

definition chat_input_handler ::
  "service \<Rightarrow> string \<Rightarrow> session_state \<Rightarrow> (session_state \<times> effect list) option" where
  "chat_input_handler svc prompt s =
     (let s1 = s\<lparr>messages := messages s @ [\<lparr>role = ''user'', content = prompt\<rparr>]\<rparr> in
      case get_assistant_response svc prompt s1 of
        None \<Rightarrow> None
      | Some (response, log) \<Rightarrow>
          if truthy response
          then Some (s1\<lparr>messages := messages s1 @
                                 [\<lparr>role = ''assistant'', content = the response\<rparr>]\<rparr>, log)
          else Some (s1, log @ [StError ''Failed to get response from assistant'']))"

text \<open>
  The body of the clear button (lines 217-220). The value \<open>create_thread\<close> returns is
  dropped; the rerun that follows executes the script again with no widget triggered.
\<close>

definition clear_chat_handler :: "service \<Rightarrow> session_state \<Rightarrow> session_state \<times> effect list" where
  "clear_chat_handler svc s =
     (case create_thread svc (s\<lparr>messages := []\<rparr>) of (t, s1, log) \<Rightarrow> (s1, log))"

text \<open>
  One execution of the script past the credential gate. Streamlit reports at most one
  triggered widget per execution: the setup button (with the files selected in the
  uploader), a submitted chat input, or the clear button. The chat input and the clear
  button exist only inside the branch of line 189.
\<close>

datatype user_action =
    SetupRAG "uploaded_file list"
  | ChatInput string
  | ClearChat
  | NoAction

definition chat_interface_shown :: "session_state \<Rightarrow> bool" where
  "chat_interface_shown s \<longleftrightarrow> truthy (assistant_id s) \<and> truthy (thread_id s)"

fun script_run ::
  "service \<Rightarrow> user_action \<Rightarrow> session_state \<Rightarrow> (session_state \<times> effect list) option" where
  "script_run svc (SetupRAG uploaded_files) s =
     (if uploaded_files \<noteq> [] then Some (setup_handler svc uploaded_files s) else Some (s, []))"
| "script_run svc (ChatInput prompt) s =
     (if chat_interface_shown s \<and> prompt \<noteq> [] then chat_input_handler svc prompt s
      else Some (s, []))"
| "script_run svc ClearChat s =
     (if chat_interface_shown s then Some (clear_chat_handler svc s) else Some (s, []))"
| "script_run svc NoAction s = Some (s, [])"

text \<open>A session: the script executed once per interaction, each against its own replies.\<close>

fun script_runs :: "(service \<times> user_action) list \<Rightarrow> session_state \<Rightarrow> session_state option" where
  "script_runs [] s = Some s"
| "script_runs ((svc, act) # rest) s =
     (case script_run svc act s of
        None \<Rightarrow> None
      | Some (s', log) \<Rightarrow> script_runs rest s')"

text \<open>What the status panel (lines 238-240) shows as ready.\<close>

definition status_panel :: "session_state \<Rightarrow> bool \<times> bool \<times> bool" where
  "status_panel s = (truthy (assistant_id s), truthy (thread_id s), truthy (vector_store_id s))"

subsection \<open>Observations on effects and session states\<close>

text \<open>The status fetches (\<open>runs.retrieve\<close>) among the effects of a turn.\<close>

fun is_status_fetch :: "effect \<Rightarrow> bool" where
  "is_status_fetch (RunsRetrieve tid rid) = True"
| "is_status_fetch x = False"

definition status_fetches :: "effect list \<Rightarrow> nat" where
  "status_fetches log = length (filter is_status_fetch log)"

text \<open>The number of status fetches one turn execution issues, if it returns.\<close>

definition turn_status_fetches :: "service \<Rightarrow> string \<Rightarrow> session_state \<Rightarrow> nat option" where
  "turn_status_fetches svc message s =
     map_option (status_fetches \<circ> snd) (get_assistant_response svc message s)"

text \<open>
  The effects of \<open>k\<close> iterations of the polling loop, when \<open>rs i\<close> is the run object held
  after \<open>i\<close> fetches: each iteration sleeps one time unit, then fetches.
\<close>

definition polling_effects :: "handle option \<Rightarrow> (nat \<Rightarrow> run) \<Rightarrow> nat \<Rightarrow> effect list" where
  "polling_effects tid rs k =
     concat (map (\<lambda>i. [Sleep 1, RunsRetrieve tid (run_id (rs i))]) [0..<k])"

text \<open>A service whose fetches never raise and never report a status that ends the loop.\<close>

definition always_pending :: "service \<Rightarrow> bool" where
  "always_pending svc \<longleftrightarrow>
     (\<forall>m. \<exists>r'. runs_retrieve svc m = Inr r' \<and> status r' \<in> set [''queued'', ''in_progress''])"

text \<open>
  The handles that are set form a prefix of (index, assistant, conversation): a handle is
  set when the session state holds a value for it (it is no longer \<open>None\<close>).
\<close>

definition handles_prefix :: "session_state \<Rightarrow> bool" where
  "handles_prefix s \<longleftrightarrow>
     (assistant_id s \<noteq> None \<longrightarrow> vector_store_id s \<noteq> None) \<and>
     (thread_id s \<noteq> None \<longrightarrow> assistant_id s \<noteq> None)"

subsection \<open>A scripted service and a session in use\<close>

text \<open>
  A run that is \<open>queued\<close> when started and reports \<open>in_progress\<close>, \<open>in_progress\<close>,
  \<open>completed\<close> on the successive fetches.
\<close>

fun scripted_run :: "nat \<Rightarrow> run" where
  "scripted_run 0 = \<lparr>run_id = ''run_1'', status = ''queued''\<rparr>"
| "scripted_run (Suc 0) = \<lparr>run_id = ''run_1'', status = ''in_progress''\<rparr>"
| "scripted_run (Suc (Suc 0)) = \<lparr>run_id = ''run_1'', status = ''in_progress''\<rparr>"
| "scripted_run (Suc (Suc (Suc n))) = \<lparr>run_id = ''run_1'', status = ''completed''\<rparr>"

definition scripted_service :: service where
  "scripted_service =
     \<lparr>vector_stores_create = Inr ''vs_2'',
      files_create = (\<lambda>i. Inr ''file_1''),
      upload_and_poll = Inr (),
      assistants_create = Inr ''asst_2'',
      threads_create = Inr ''thread_2'',
      messages_create = Inr (),
      runs_create = Inr (scripted_run 0),
      runs_retrieve = (\<lambda>n. Inr (scripted_run (Suc n))),
      messages_list = Inr [[TextContent ''Revenue grew in Q4.'']]\<rparr>"

text \<open>The same service with a run that stays \<open>in_progress\<close> for ever.\<close>

definition stuck_service :: service where
  "stuck_service =
     scripted_service\<lparr>runs_retrieve := (\<lambda>n. Inr \<lparr>run_id = ''run_1'', status = ''in_progress''\<rparr>)\<rparr>"

text \<open>A session after a successful setup and one exchange.\<close>

definition ready_session :: session_state where
  "ready_session =
     \<lparr>messages = [\<lparr>role = ''user'', content = ''Hello''\<rparr>,
                  \<lparr>role = ''assistant'', content = ''Hi, ask me about the documents.''\<rparr>],
      assistant_id = Some ''asst_1'',
      thread_id = Some ''thread_1'',
      vector_store_id = Some ''vs_1''\<rparr>"

section \<open>The polling loop\<close>

lemma wait_for_completion_exit:
  "status r \<notin> set [''queued'', ''in_progress''] \<Longrightarrow>
     wait_for_completion svc tid n r = Some (Inr r, [])"
  by (subst wait_for_completion.simps) simp

lemma wait_for_completion_step:
  "status r \<in> set [''queued'', ''in_progress''] \<Longrightarrow> runs_retrieve svc n = Inr r' \<Longrightarrow>
     wait_for_completion svc tid n r =
       Option.bind (wait_for_completion svc tid (Suc n) r')
         (\<lambda>(res, log). Some (res, Sleep 1 # RunsRetrieve tid (run_id r) # log))"
  by (subst wait_for_completion.simps) simp

lemma wait_for_completion_raise:
  "status r \<in> set [''queued'', ''in_progress''] \<Longrightarrow> runs_retrieve svc n = Inl e \<Longrightarrow>
     wait_for_completion svc tid n r = Some (Inl e, [Sleep 1, RunsRetrieve tid (run_id r)])"
  by (subst wait_for_completion.simps) simp

text \<open>
  If every fetch reports a status of the loop condition, no result is ever returned:
  by induction on the computation of a returned result.
\<close>

lemma wait_for_completion_returns_not_pending:
  assumes ret: "wait_for_completion svc tid n r = Some y"
  shows "always_pending svc \<longrightarrow> status r \<notin> set [''queued'', ''in_progress'']"
proof (rule wait_for_completion.raw_induct
    [where P = "\<lambda>svc tid n r y.
        always_pending svc \<longrightarrow> status r \<notin> set [''queued'', ''in_progress'']",
      OF _ ret])
  fix w :: "service \<Rightarrow> handle option \<Rightarrow> nat \<Rightarrow> run \<Rightarrow> ((exn + run) \<times> effect list) option"
  fix svc tid n r y
  assume IH: "\<And>svc tid n r y. w svc tid n r = Some y \<Longrightarrow>
      always_pending svc \<longrightarrow> status r \<notin> set [''queued'', ''in_progress'']"
  assume eq: "(if status r \<in> set [''queued'', ''in_progress''] then
        (case runs_retrieve svc n of
           Inl e \<Rightarrow> Some (Inl e, [Sleep 1, RunsRetrieve tid (run_id r)])
         | Inr r' \<Rightarrow>
             Option.bind (w svc tid (Suc n) r')
               (\<lambda>(res, log). Some (res, Sleep 1 # RunsRetrieve tid (run_id r) # log)))
      else Some (Inr r, [])) = Some y"
  show "always_pending svc \<longrightarrow> status r \<notin> set [''queued'', ''in_progress'']"
  proof (intro impI notI)
    assume pend: "always_pending svc"
      and st: "status r \<in> set [''queued'', ''in_progress'']"
    from pend obtain r' where r': "runs_retrieve svc n = Inr r'"
      "status r' \<in> set [''queued'', ''in_progress'']"
      unfolding always_pending_def by blast
    from eq st r'(1) obtain y' where y': "w svc tid (Suc n) r' = Some y'"
      by (auto split: if_splits simp: bind_eq_Some_conv)
    from IH[OF y'] pend r'(2) show False by blast
  qed
qed

lemma wait_for_completion_diverges:
  assumes "always_pending svc" and "status r \<in> set [''queued'', ''in_progress'']"
  shows "wait_for_completion svc tid n r = None"
proof (cases "wait_for_completion svc tid n r")
  case None
  then show ?thesis .
next
  case (Some y)
  from wait_for_completion_returns_not_pending[OF Some] assms show ?thesis by blast
qed

text \<open>
  If the statuses held after \<open>n, \<dots>, k - 1\<close> fetches keep the loop going and the one held
  after \<open>k\<close> fetches does not, the loop exits with that run after \<open>k - n\<close> more iterations.
\<close>

lemma wait_for_completion_returns_at:
  assumes "n \<le> k"
    and "\<forall>i. n \<le> i \<and> i < k \<longrightarrow>
           runs_retrieve svc i = Inr (rs (Suc i)) \<and> status (rs i) \<in> set [''queued'', ''in_progress'']"
    and "status (rs k) \<notin> set [''queued'', ''in_progress'']"
  shows "wait_for_completion svc tid n (rs n) =
     Some (Inr (rs k), concat (map (\<lambda>i. [Sleep 1, RunsRetrieve tid (run_id (rs i))]) [n..<k]))"
  using assms
proof (induction "k - n" arbitrary: n)
  case 0
  then have "n = k" by simp
  with 0 show ?case by (simp add: wait_for_completion_exit)
next
  case (Suc d)
  then have lt: "n < k" by simp
  with Suc.prems have now: "runs_retrieve svc n = Inr (rs (Suc n))"
    "status (rs n) \<in> set [''queued'', ''in_progress'']" by auto
  have "wait_for_completion svc tid (Suc n) (rs (Suc n)) =
     Some (Inr (rs k), concat (map (\<lambda>i. [Sleep 1, RunsRetrieve tid (run_id (rs i))]) [Suc n..<k]))"
    using Suc.hyps(1)[of "Suc n"] Suc.hyps(2) Suc.prems lt by auto
  then show ?case using now lt
    by (simp add: wait_for_completion_step[OF now(2) now(1)] upt_conv_Cons)
qed

text \<open>
  C8. The polling loop goes on (one sleep of one time unit, then one fetch) exactly as
  long as the status it holds is \<open>queued\<close> or \<open>in_progress\<close>: when the run objects
  \<open>rs 0, rs 1, \<dots>\<close> are the one returned by starting the run and those returned by the
  successive fetches, and \<open>rs k\<close> is the first whose status is outside that set, the loop
  exits with \<open>rs k\<close> after exactly \<open>k\<close> iterations, whatever \<open>k\<close> is; and when no status
  ever leaves the set, the loop does not return.
\<close>

theorem wait_for_completion_unbounded:
  "((\<forall>i<k. runs_retrieve svc i = Inr (rs (Suc i)) \<and>
            status (rs i) \<in> set [''queued'', ''in_progress'']) \<and>
      status (rs k) \<notin> set [''queued'', ''in_progress''] \<longrightarrow>
      wait_for_completion svc tid 0 (rs 0) = Some (Inr (rs k), polling_effects tid rs k)) \<and>
   ((\<forall>i. runs_retrieve svc i = Inr (rs (Suc i)) \<and>
          status (rs i) \<in> set [''queued'', ''in_progress'']) \<longrightarrow>
      wait_for_completion svc tid 0 (rs 0) = None)"
proof (intro conjI impI)
  assume "(\<forall>i<k. runs_retrieve svc i = Inr (rs (Suc i)) \<and>
            status (rs i) \<in> set [''queued'', ''in_progress'']) \<and>
      status (rs k) \<notin> set [''queued'', ''in_progress'']"
  then show "wait_for_completion svc tid 0 (rs 0) = Some (Inr (rs k), polling_effects tid rs k)"
    using wait_for_completion_returns_at[of 0 k svc rs tid] by (simp add: polling_effects_def)
next
  assume a: "\<forall>i. runs_retrieve svc i = Inr (rs (Suc i)) \<and>
          status (rs i) \<in> set [''queued'', ''in_progress'']"
  then have "always_pending svc" unfolding always_pending_def by blast
  moreover from a have "status (rs 0) \<in> set [''queued'', ''in_progress'']" by blast
  ultimately show "wait_for_completion svc tid 0 (rs 0) = None"
    by (rule wait_for_completion_diverges)
qed

theorem wait_for_completion_unbounded_witness:
  "wait_for_completion scripted_service (Some ''thread_1'') 0 (scripted_run 0) =
     Some (Inr \<lparr>run_id = ''run_1'', status = ''completed''\<rparr>,
           [Sleep 1, RunsRetrieve (Some ''thread_1'') ''run_1'',
            Sleep 1, RunsRetrieve (Some ''thread_1'') ''run_1'',
            Sleep 1, RunsRetrieve (Some ''thread_1'') ''run_1'']) \<and>
   wait_for_completion stuck_service (Some ''thread_1'') 0
     \<lparr>run_id = ''run_1'', status = ''in_progress''\<rparr> = None"
proof
  have h: "(\<forall>i<3. runs_retrieve scripted_service i = Inr (scripted_run (Suc i)) \<and>
            status (scripted_run i) \<in> set [''queued'', ''in_progress'']) \<and>
      status (scripted_run 3) \<notin> set [''queued'', ''in_progress'']"
    by (simp add: scripted_service_def numeral_3_eq_3 All_less_Suc)
  from wait_for_completion_unbounded[of 3 scripted_service scripted_run "Some ''thread_1''"] h
  show "wait_for_completion scripted_service (Some ''thread_1'') 0 (scripted_run 0) =
     Some (Inr \<lparr>run_id = ''run_1'', status = ''completed''\<rparr>,
           [Sleep 1, RunsRetrieve (Some ''thread_1'') ''run_1'',
            Sleep 1, RunsRetrieve (Some ''thread_1'') ''run_1'',
            Sleep 1, RunsRetrieve (Some ''thread_1'') ''run_1''])"
    by (simp add: polling_effects_def numeral_3_eq_3)
next
  have h: "\<forall>i. runs_retrieve stuck_service i = Inr ((\<lambda>i. \<lparr>run_id = ''run_1'', status = ''in_progress''\<rparr>) (Suc i)) \<and>
          status ((\<lambda>i. \<lparr>run_id = ''run_1'', status = ''in_progress''\<rparr>) i) \<in> set [''queued'', ''in_progress'']"
    by (simp add: stuck_service_def)
  from wait_for_completion_unbounded[of 0 stuck_service "\<lambda>i. \<lparr>run_id = ''run_1'', status = ''in_progress''\<rparr>" "Some ''thread_1''"] h
  show "wait_for_completion stuck_service (Some ''thread_1'') 0
     \<lparr>run_id = ''run_1'', status = ''in_progress''\<rparr> = None"
    by simp
qed

text \<open>
  C1 (as amended). With the scripted statuses \<open>queued\<close> (returned by starting the run),
  \<open>in_progress\<close>, \<open>in_progress\<close>, \<open>completed\<close> (returned by the successive fetches), the
  polling loop issues exactly 3 status fetches, one after each of the three statuses that
  keep the loop going, each after a sleep of one time unit, and exits only with the run
  whose status is \<open>completed\<close>; the whole turn issues exactly 3 status fetches.
\<close>

theorem polling_scripted_sequence:
  assumes "messages_create svc = Inr ()" and "runs_create svc = Inr r0"
    and "status r0 = ''queued''"
    and "runs_retrieve svc 0 = Inr r1" and "status r1 = ''in_progress''"
    and "runs_retrieve svc 1 = Inr r2" and "status r2 = ''in_progress''"
    and "runs_retrieve svc 2 = Inr r3" and "status r3 = ''completed''"
  shows "wait_for_completion svc tid 0 r0 =
           Some (Inr r3, [Sleep 1, RunsRetrieve tid (run_id r0),
                          Sleep 1, RunsRetrieve tid (run_id r1),
                          Sleep 1, RunsRetrieve tid (run_id r2)]) \<and>
         turn_status_fetches svc message s = Some 3"
proof -
  have w3: "wait_for_completion svc tid' 3 r3 = Some (Inr r3, [])" for tid'
    using assms by (simp add: wait_for_completion_exit)
  have w2: "wait_for_completion svc tid' 2 r2 =
      Some (Inr r3, [Sleep 1, RunsRetrieve tid' (run_id r2)])" for tid'
    using assms w3[of tid'] wait_for_completion_step[of r2 svc 2 r3 tid']
    by (simp add: numeral_3_eq_3 numeral_2_eq_2)
  have w1: "wait_for_completion svc tid' 1 r1 =
      Some (Inr r3, [Sleep 1, RunsRetrieve tid' (run_id r1), Sleep 1, RunsRetrieve tid' (run_id r2)])" for tid'
    using assms w2[of tid'] wait_for_completion_step[of r1 svc 1 r2 tid']
    by (simp add: numeral_2_eq_2)
  have w0: "wait_for_completion svc tid' 0 r0 =
      Some (Inr r3, [Sleep 1, RunsRetrieve tid' (run_id r0), Sleep 1, RunsRetrieve tid' (run_id r1),
                     Sleep 1, RunsRetrieve tid' (run_id r2)])" for tid'
    using assms w1[of tid'] wait_for_completion_step[of r0 svc 0 r1 tid']
    by simp
  have "turn_status_fetches svc message s = Some 3"
    using assms w0[of "thread_id s"]
    by (simp add: turn_status_fetches_def get_assistant_response_def status_fetches_def Let_def
        split: sum.split)
  with w0 show ?thesis by simp
qed

theorem polling_scripted_sequence_witness:
  "wait_for_completion scripted_service (Some ''thread_1'') 0 (scripted_run 0) =
     Some (Inr (scripted_run 3),
           [Sleep 1, RunsRetrieve (Some ''thread_1'') ''run_1'',
            Sleep 1, RunsRetrieve (Some ''thread_1'') ''run_1'',
            Sleep 1, RunsRetrieve (Some ''thread_1'') ''run_1'']) \<and>
   turn_status_fetches scripted_service ''What was the Q4 revenue?'' ready_session = Some 3"
  using polling_scripted_sequence[of scripted_service "scripted_run 0" "scripted_run 1"
      "scripted_run 2" "scripted_run 3" "Some ''thread_1''" "''What was the Q4 revenue?''" ready_session]
  by (simp add: scripted_service_def numeral_3_eq_3 numeral_2_eq_2)

text \<open>
  C1 as stated fails: on the scripted sequence the turn issues 3 status fetches, not 4,
  since the first status is the one \<open>runs.create\<close> returned.
\<close>

theorem four_status_fetches_counterexample:
  "turn_status_fetches scripted_service ''What was the Q4 revenue?'' ready_session = Some 3 \<and>
   turn_status_fetches scripted_service ''What was the Q4 revenue?'' ready_session \<noteq> Some 4"
  by (simp add: turn_status_fetches_def get_assistant_response_def status_fetches_def Let_def
      scripted_service_def ready_session_def wait_for_completion.simps)

section \<open>Turn execution\<close>

text \<open>The outcome of \<open>get_assistant_response\<close>, branch by branch.\<close>

lemma get_assistant_response_message_raises:
  "messages_create svc = Inl e \<Longrightarrow>
     get_assistant_response svc message s =
       Some (None, [MessagesCreate (thread_id s) message,
                    StError (''Error getting response: '' @ e)])"
  by (simp add: get_assistant_response_def Let_def)

lemma get_assistant_response_run_raises:
  "messages_create svc = Inr u \<Longrightarrow> runs_create svc = Inl e \<Longrightarrow>
     get_assistant_response svc message s =
       Some (None, [MessagesCreate (thread_id s) message,
                    RunsCreate (thread_id s) (assistant_id s),
                    StError (''Error getting response: '' @ e)])"
  by (simp add: get_assistant_response_def Let_def)

lemma get_assistant_response_fetch_raises:
  "messages_create svc = Inr u \<Longrightarrow> runs_create svc = Inr r0 \<Longrightarrow>
   wait_for_completion svc (thread_id s) 0 r0 = Some (Inl e, log) \<Longrightarrow>
     get_assistant_response svc message s =
       Some (None, MessagesCreate (thread_id s) message #
                   RunsCreate (thread_id s) (assistant_id s) #
                   log @ [StError (''Error getting response: '' @ e)])"
  by (simp add: get_assistant_response_def Let_def)

lemma get_assistant_response_not_completed:
  "messages_create svc = Inr u \<Longrightarrow> runs_create svc = Inr r0 \<Longrightarrow>
   wait_for_completion svc (thread_id s) 0 r0 = Some (Inr r, log) \<Longrightarrow>
   status r \<noteq> ''completed'' \<Longrightarrow>
     get_assistant_response svc message s =
       Some (None, MessagesCreate (thread_id s) message #
                   RunsCreate (thread_id s) (assistant_id s) #
                   log @ [StError (''Run failed with status: '' @ status r)])"
  by (simp add: get_assistant_response_def Let_def)

lemma get_assistant_response_list_raises:
  "messages_create svc = Inr u \<Longrightarrow> runs_create svc = Inr r0 \<Longrightarrow>
   wait_for_completion svc (thread_id s) 0 r0 = Some (Inr r, log) \<Longrightarrow>
   status r = ''completed'' \<Longrightarrow>
   messages_list svc = Inl e \<or> (messages_list svc = Inr data \<and> first_text data = Inl e) \<Longrightarrow>
     get_assistant_response svc message s =
       Some (None, MessagesCreate (thread_id s) message #
                   RunsCreate (thread_id s) (assistant_id s) #
                   log @ [MessagesList (thread_id s), StError (''Error getting response: '' @ e)])"
  by (auto simp add: get_assistant_response_def Let_def)

lemma get_assistant_response_completed:
  "messages_create svc = Inr u \<Longrightarrow> runs_create svc = Inr r0 \<Longrightarrow>
   wait_for_completion svc (thread_id s) 0 r0 = Some (Inr r, log) \<Longrightarrow>
   status r = ''completed'' \<Longrightarrow>
   messages_list svc = Inr data \<Longrightarrow> first_text data = Inr v \<Longrightarrow>
     get_assistant_response svc message s =
       Some (Some v, MessagesCreate (thread_id s) message #
                   RunsCreate (thread_id s) (assistant_id s) #
                   log @ [MessagesList (thread_id s)])"
  by (simp add: get_assistant_response_def Let_def)

lemma chat_input_handler_no_reply:
  assumes "get_assistant_response svc prompt
             (s\<lparr>messages := messages s @ [\<lparr>role = ''user'', content = prompt\<rparr>]\<rparr>) = Some (reply, log)"
    and "\<not> truthy reply"
  shows "chat_input_handler svc prompt s =
     Some (s\<lparr>messages := messages s @ [\<lparr>role = ''user'', content = prompt\<rparr>]\<rparr>,
           log @ [StError ''Failed to get response from assistant''])"
  using assms by (simp add: chat_input_handler_def Let_def)

lemma chat_input_handler_reply:
  assumes "get_assistant_response svc prompt
             (s\<lparr>messages := messages s @ [\<lparr>role = ''user'', content = prompt\<rparr>]\<rparr>) = Some (Some v, log)"
    and "v \<noteq> []"
  shows "chat_input_handler svc prompt s =
     Some (s\<lparr>messages := messages s @ [\<lparr>role = ''user'', content = prompt\<rparr>,
                                          \<lparr>role = ''assistant'', content = v\<rparr>]\<rparr>, log)"
  using assms by (simp add: chat_input_handler_def Let_def)

text \<open>
  C4. A turn execution that fails (a call of the service raises in the step that appends
  the message, starts the run, fetches the status or lists the messages, or the polling
  loop exits with a status other than \<open>completed\<close>) returns, reports an error, and leaves
  the session state as it was except that the chat history has gained exactly the user's
  turn at its end: no assistant turn, and the earlier turns unchanged.
\<close>

theorem failed_turn_adds_only_user_turn:
  assumes "messages_create svc = Inl e
     \<or> runs_create svc = Inl e
     \<or> (runs_create svc = Inr r0 \<and> wait_for_completion svc (thread_id s) 0 r0 = Some (Inl e, log))
     \<or> (runs_create svc = Inr r0 \<and> wait_for_completion svc (thread_id s) 0 r0 = Some (Inr r, log) \<and>
          (status r \<noteq> ''completed'' \<or> messages_list svc = Inl e \<or>
           (messages_list svc = Inr dat \<and> first_text dat = Inl e)))"
  shows "\<exists>log'. chat_input_handler svc prompt s =
           Some (s\<lparr>messages := messages s @ [\<lparr>role = ''user'', content = prompt\<rparr>]\<rparr>, log') \<and>
           (\<exists>err. StError err \<in> set log')"
proof -
  let ?s1 = "s\<lparr>messages := messages s @ [\<lparr>role = ''user'', content = prompt\<rparr>]\<rparr>"
  have tid: "thread_id ?s1 = thread_id s" by simp
  have "\<exists>log1. get_assistant_response svc prompt ?s1 = Some (None, log1)"
  proof (cases "messages_create svc")
    case (Inl e')
    then show ?thesis by (simp add: get_assistant_response_message_raises)
  next
    case u: (Inr u)
    show ?thesis
    proof (cases "runs_create svc")
      case (Inl e')
      with u show ?thesis by (simp add: get_assistant_response_run_raises)
    next
      case r0': (Inr r0')
      with u assms have
        "wait_for_completion svc (thread_id s) 0 r0' = Some (Inl e, log) \<or>
         (wait_for_completion svc (thread_id s) 0 r0' = Some (Inr r, log) \<and>
          (status r \<noteq> ''completed'' \<or> messages_list svc = Inl e \<or>
           (messages_list svc = Inr dat \<and> first_text dat = Inl e)))"
        by auto
      then show ?thesis
      proof (elim disjE conjE)
        assume "wait_for_completion svc (thread_id s) 0 r0' = Some (Inl e, log)"
        with u r0' tid show ?thesis
          using get_assistant_response_fetch_raises[of svc u r0' ?s1 e log prompt] by simp
      next
        assume "wait_for_completion svc (thread_id s) 0 r0' = Some (Inr r, log)"
          and "status r \<noteq> ''completed''"
        with u r0' tid show ?thesis
          using get_assistant_response_not_completed[of svc u r0' ?s1 r log prompt] by simp
      next
        assume w: "wait_for_completion svc (thread_id s) 0 r0' = Some (Inr r, log)"
          and l: "messages_list svc = Inl e"
        show ?thesis
        proof (cases "status r = ''completed''")
          case True
          with u r0' tid w l show ?thesis
            using get_assistant_response_list_raises[of svc u r0' ?s1 r log e dat prompt] by simp
        next
          case False
          with u r0' tid w show ?thesis
            using get_assistant_response_not_completed[of svc u r0' ?s1 r log prompt] by simp
        qed
      next
        assume w: "wait_for_completion svc (thread_id s) 0 r0' = Some (Inr r, log)"
          and l: "messages_list svc = Inr dat" "first_text dat = Inl e"
        show ?thesis
        proof (cases "status r = ''completed''")
          case True
          with u r0' tid w l show ?thesis
            using get_assistant_response_list_raises[of svc u r0' ?s1 r log e dat prompt] by simp
        next
          case False
          with u r0' tid w show ?thesis
            using get_assistant_response_not_completed[of svc u r0' ?s1 r log prompt] by simp
        qed
      qed
    qed
  qed
  then obtain log1 where "get_assistant_response svc prompt ?s1 = Some (None, log1)" ..
  then have "chat_input_handler svc prompt s =
      Some (?s1, log1 @ [StError ''Failed to get response from assistant''])"
    by (simp add: chat_input_handler_no_reply)
  then show ?thesis by auto
qed

theorem failed_turn_adds_only_user_turn_witness:
  "chat_input_handler (scripted_service\<lparr>runs_retrieve := (\<lambda>n. Inl ''Connection error.'')\<rparr>)
      ''What was the Q4 revenue?'' ready_session =
     Some (ready_session\<lparr>messages := messages ready_session @
              [\<lparr>role = ''user'', content = ''What was the Q4 revenue?''\<rparr>]\<rparr>,
           [MessagesCreate (Some ''thread_1'') ''What was the Q4 revenue?'',
            RunsCreate (Some ''thread_1'') (Some ''asst_1''),
            Sleep 1, RunsRetrieve (Some ''thread_1'') ''run_1'',
            StError ''Error getting response: Connection error.'',
            StError ''Failed to get response from assistant''])"
proof -
  let ?svc = "scripted_service\<lparr>runs_retrieve := (\<lambda>n. Inl ''Connection error.'')\<rparr>"
  have w: "wait_for_completion ?svc (thread_id ready_session) 0 (scripted_run 0) =
      Some (Inl ''Connection error.'', [Sleep 1, RunsRetrieve (Some ''thread_1'') ''run_1''])"
    by (simp add: wait_for_completion.simps scripted_service_def ready_session_def)
  have "runs_create ?svc = Inr (scripted_run 0)" by (simp add: scripted_service_def)
  with w failed_turn_adds_only_user_turn[of ?svc "''Connection error.''" "scripted_run 0" ready_session
      "[Sleep 1, RunsRetrieve (Some ''thread_1'') ''run_1'']" "scripted_run 0" "[]"
      "''What was the Q4 revenue?''"]
  obtain log' where "chat_input_handler ?svc ''What was the Q4 revenue?'' ready_session =
     Some (ready_session\<lparr>messages := messages ready_session @
              [\<lparr>role = ''user'', content = ''What was the Q4 revenue?''\<rparr>]\<rparr>, log')"
    by auto
  moreover have "map_option snd (chat_input_handler ?svc ''What was the Q4 revenue?'' ready_session) =
     Some [MessagesCreate (Some ''thread_1'') ''What was the Q4 revenue?'',
            RunsCreate (Some ''thread_1'') (Some ''asst_1''),
            Sleep 1, RunsRetrieve (Some ''thread_1'') ''run_1'',
            StError ''Error getting response: Connection error.'',
            StError ''Failed to get response from assistant'']"
    by (simp add: chat_input_handler_def get_assistant_response_def Let_def
        wait_for_completion.simps scripted_service_def ready_session_def)
  ultimately show ?thesis by simp
qed

text \<open>
  C7. When the polling loop exits with a status other than \<open>completed\<close>,
  \<open>get_assistant_response\<close> returns no reply (\<open>None\<close>) and its last effect is the error
  \<open>Run failed with status: \<close> followed by that status; the chat handler then appends no
  assistant turn: the history gains the user's turn only.
\<close>

theorem non_completed_run_reports_status:
  assumes "messages_create svc = Inr ()" and "runs_create svc = Inr r0"
    and "wait_for_completion svc (thread_id s) 0 r0 = Some (Inr r, log)"
    and "status r \<noteq> ''completed''"
  shows "get_assistant_response svc prompt s =
           Some (None, MessagesCreate (thread_id s) prompt #
                       RunsCreate (thread_id s) (assistant_id s) #
                       log @ [StError (''Run failed with status: '' @ status r)]) \<and>
         chat_input_handler svc prompt s =
           Some (s\<lparr>messages := messages s @ [\<lparr>role = ''user'', content = prompt\<rparr>]\<rparr>,
                 MessagesCreate (thread_id s) prompt #
                 RunsCreate (thread_id s) (assistant_id s) #
                 log @ [StError (''Run failed with status: '' @ status r),
                        StError ''Failed to get response from assistant''])"
proof
  show "get_assistant_response svc prompt s =
           Some (None, MessagesCreate (thread_id s) prompt #
                       RunsCreate (thread_id s) (assistant_id s) #
                       log @ [StError (''Run failed with status: '' @ status r)])"
    using assms by (rule get_assistant_response_not_completed)
next
  let ?s1 = "s\<lparr>messages := messages s @ [\<lparr>role = ''user'', content = prompt\<rparr>]\<rparr>"
  have "get_assistant_response svc prompt ?s1 =
           Some (None, MessagesCreate (thread_id ?s1) prompt #
                       RunsCreate (thread_id ?s1) (assistant_id ?s1) #
                       log @ [StError (''Run failed with status: '' @ status r)])"
    using assms by (intro get_assistant_response_not_completed) simp_all
  then show "chat_input_handler svc prompt s =
           Some (?s1,
                 MessagesCreate (thread_id s) prompt #
                 RunsCreate (thread_id s) (assistant_id s) #
                 log @ [StError (''Run failed with status: '' @ status r),
                        StError ''Failed to get response from assistant''])"
    using chat_input_handler_no_reply[of svc prompt s None] by simp
qed

theorem non_completed_run_reports_status_witness:
  "get_assistant_response
      (scripted_service\<lparr>runs_retrieve := (\<lambda>n. Inr \<lparr>run_id = ''run_1'', status = ''failed''\<rparr>)\<rparr>)
      ''Summarize the strategy document'' ready_session =
     Some (None,
           [MessagesCreate (Some ''thread_1'') ''Summarize the strategy document'',
            RunsCreate (Some ''thread_1'') (Some ''asst_1''),
            Sleep 1, RunsRetrieve (Some ''thread_1'') ''run_1'',
            StError ''Run failed with status: failed'']) \<and>
   chat_input_handler
      (scripted_service\<lparr>runs_retrieve := (\<lambda>n. Inr \<lparr>run_id = ''run_1'', status = ''failed''\<rparr>)\<rparr>)
      ''Summarize the strategy document'' ready_session =
     Some (ready_session\<lparr>messages := messages ready_session @
              [\<lparr>role = ''user'', content = ''Summarize the strategy document''\<rparr>]\<rparr>,
           [MessagesCreate (Some ''thread_1'') ''Summarize the strategy document'',
            RunsCreate (Some ''thread_1'') (Some ''asst_1''),
            Sleep 1, RunsRetrieve (Some ''thread_1'') ''run_1'',
            StError ''Run failed with status: failed'',
            StError ''Failed to get response from assistant''])"
proof -
  let ?svc = "scripted_service\<lparr>runs_retrieve := (\<lambda>n. Inr \<lparr>run_id = ''run_1'', status = ''failed''\<rparr>)\<rparr>"
  have w: "wait_for_completion ?svc (thread_id ready_session) 0 (scripted_run 0) =
      Some (Inr \<lparr>run_id = ''run_1'', status = ''failed''\<rparr>,
            [Sleep 1, RunsRetrieve (Some ''thread_1'') ''run_1''])"
    by (simp add: wait_for_completion.simps scripted_service_def ready_session_def)
  have m: "messages_create ?svc = Inr ()" and c: "runs_create ?svc = Inr (scripted_run 0)"
    by (simp_all add: scripted_service_def)
  have st: "status \<lparr>run_id = ''run_1'', status = ''failed''\<rparr> \<noteq> ''completed''" by simp
  from non_completed_run_reports_status[OF m c w st, of "''Summarize the strategy document''"]
  show ?thesis by (simp add: ready_session_def)
qed

text \<open>
  C2 (as amended). When the polling loop exits with status \<open>completed\<close>, the message
  list is fetched without an exception, and the first content block of its most recent
  entry is a text whose value is not empty, the turn appends exactly one assistant turn
  to the chat history, after the user's turn, and its text is that value.
\<close>

theorem completed_run_appends_reply:
  assumes "messages_create svc = Inr ()" and "runs_create svc = Inr r0"
    and "wait_for_completion svc (thread_id s) 0 r0 = Some (Inr r, log)"
    and "status r = ''completed''"
    and "messages_list svc = Inr ((TextContent v # bs) # ms)"
    and "v \<noteq> []"
  shows "chat_input_handler svc prompt s =
           Some (s\<lparr>messages := messages s @ [\<lparr>role = ''user'', content = prompt\<rparr>,
                                                \<lparr>role = ''assistant'', content = v\<rparr>]\<rparr>,
                 MessagesCreate (thread_id s) prompt #
                 RunsCreate (thread_id s) (assistant_id s) #
                 log @ [MessagesList (thread_id s)])"
proof -
  let ?s1 = "s\<lparr>messages := messages s @ [\<lparr>role = ''user'', content = prompt\<rparr>]\<rparr>"
  have ft: "first_text ((TextContent v # bs) # ms) = Inr v" by simp
  have w: "wait_for_completion svc (thread_id ?s1) 0 r0 = Some (Inr r, log)"
    using assms(3) by simp
  have "get_assistant_response svc prompt ?s1 =
      Some (Some v, MessagesCreate (thread_id ?s1) prompt #
                    RunsCreate (thread_id ?s1) (assistant_id ?s1) #
                    log @ [MessagesList (thread_id ?s1)])"
    by (rule get_assistant_response_completed[OF assms(1,2) w assms(4,5) ft])
  with \<open>v \<noteq> []\<close> show ?thesis
    using chat_input_handler_reply[of svc prompt s v] by simp
qed

theorem completed_run_appends_reply_witness:
  "chat_input_handler scripted_service ''What was the Q4 revenue?'' ready_session =
     Some (ready_session\<lparr>messages := messages ready_session @
              [\<lparr>role = ''user'', content = ''What was the Q4 revenue?''\<rparr>,
               \<lparr>role = ''assistant'', content = ''Revenue grew in Q4.''\<rparr>]\<rparr>,
           [MessagesCreate (Some ''thread_1'') ''What was the Q4 revenue?'',
            RunsCreate (Some ''thread_1'') (Some ''asst_1''),
            Sleep 1, RunsRetrieve (Some ''thread_1'') ''run_1'',
            Sleep 1, RunsRetrieve (Some ''thread_1'') ''run_1'',
            Sleep 1, RunsRetrieve (Some ''thread_1'') ''run_1'',
            MessagesList (Some ''thread_1'')])"
proof -
  have w: "wait_for_completion scripted_service (thread_id ready_session) 0 (scripted_run 0) =
      Some (Inr (scripted_run 3),
            [Sleep 1, RunsRetrieve (Some ''thread_1'') ''run_1'',
             Sleep 1, RunsRetrieve (Some ''thread_1'') ''run_1'',
             Sleep 1, RunsRetrieve (Some ''thread_1'') ''run_1''])"
    by (simp add: wait_for_completion.simps scripted_service_def ready_session_def numeral_3_eq_3)
  have m: "messages_create scripted_service = Inr ()"
    and c: "runs_create scripted_service = Inr (scripted_run 0)"
    and l: "messages_list scripted_service = Inr ((TextContent ''Revenue grew in Q4.'' # []) # [])"
    by (simp_all add: scripted_service_def)
  have st: "status (scripted_run 3) = ''completed''" by (simp add: numeral_3_eq_3)
  have ne: "''Revenue grew in Q4.'' \<noteq> []" by simp
  from completed_run_appends_reply[OF m c w st l ne, of "''What was the Q4 revenue?''"]
  show ?thesis by (simp add: ready_session_def)
qed

text \<open>
  C2 as stated fails: the scripted run completes, yet no assistant turn is appended when
  listing the messages raises, nor when the most recent text is the empty string.
\<close>

theorem completed_run_without_reply_counterexample:
  "wait_for_completion (scripted_service\<lparr>messages_list := Inl ''Connection error.''\<rparr>)
      (Some ''thread_1'') 0 (scripted_run 0) =
     Some (Inr \<lparr>run_id = ''run_1'', status = ''completed''\<rparr>,
           [Sleep 1, RunsRetrieve (Some ''thread_1'') ''run_1'',
            Sleep 1, RunsRetrieve (Some ''thread_1'') ''run_1'',
            Sleep 1, RunsRetrieve (Some ''thread_1'') ''run_1'']) \<and>
   map_option (messages \<circ> fst)
     (chat_input_handler (scripted_service\<lparr>messages_list := Inl ''Connection error.''\<rparr>)
        ''What was the Q4 revenue?'' ready_session) =
     Some [\<lparr>role = ''user'', content = ''Hello''\<rparr>,
           \<lparr>role = ''assistant'', content = ''Hi, ask me about the documents.''\<rparr>,
           \<lparr>role = ''user'', content = ''What was the Q4 revenue?''\<rparr>] \<and>
   map_option (messages \<circ> fst)
     (chat_input_handler (scripted_service\<lparr>messages_list := Inr [[TextContent '''']]\<rparr>)
        ''What was the Q4 revenue?'' ready_session) =
     Some [\<lparr>role = ''user'', content = ''Hello''\<rparr>,
           \<lparr>role = ''assistant'', content = ''Hi, ask me about the documents.''\<rparr>,
           \<lparr>role = ''user'', content = ''What was the Q4 revenue?''\<rparr>]"
  by (simp add: chat_input_handler_def get_assistant_response_def Let_def
      wait_for_completion.simps scripted_service_def ready_session_def)

text \<open>
  C10. When the polling loop exits with status \<open>completed\<close> and the most recent remote
  message starts with a text block whose value is the empty string,
  \<open>get_assistant_response\<close> returns that empty string, which the chat handler treats as
  false: no assistant turn is appended (the history gains the user's turn only) and the
  error \<open>Failed to get response from assistant\<close> is shown.
\<close>

theorem empty_reply_is_failure:
  assumes "messages_create svc = Inr ()" and "runs_create svc = Inr r0"
    and "wait_for_completion svc (thread_id s) 0 r0 = Some (Inr r, log)"
    and "status r = ''completed''"
    and "messages_list svc = Inr ((TextContent [] # bs) # ms)"
  shows "get_assistant_response svc prompt s =
           Some (Some [], MessagesCreate (thread_id s) prompt #
                          RunsCreate (thread_id s) (assistant_id s) #
                          log @ [MessagesList (thread_id s)]) \<and>
         chat_input_handler svc prompt s =
           Some (s\<lparr>messages := messages s @ [\<lparr>role = ''user'', content = prompt\<rparr>]\<rparr>,
                 MessagesCreate (thread_id s) prompt #
                 RunsCreate (thread_id s) (assistant_id s) #
                 log @ [MessagesList (thread_id s),
                        StError ''Failed to get response from assistant''])"
proof
  have ft: "first_text ((TextContent [] # bs) # ms) = Inr []" by simp
  show "get_assistant_response svc prompt s =
           Some (Some [], MessagesCreate (thread_id s) prompt #
                          RunsCreate (thread_id s) (assistant_id s) #
                          log @ [MessagesList (thread_id s)])"
    by (rule get_assistant_response_completed[OF assms ft])
  let ?s1 = "s\<lparr>messages := messages s @ [\<lparr>role = ''user'', content = prompt\<rparr>]\<rparr>"
  have w: "wait_for_completion svc (thread_id ?s1) 0 r0 = Some (Inr r, log)"
    using assms(3) by simp
  have "get_assistant_response svc prompt ?s1 =
           Some (Some [], MessagesCreate (thread_id ?s1) prompt #
                          RunsCreate (thread_id ?s1) (assistant_id ?s1) #
                          log @ [MessagesList (thread_id ?s1)])"
    by (rule get_assistant_response_completed[OF assms(1,2) w assms(4,5) ft])
  then show "chat_input_handler svc prompt s =
           Some (?s1,
                 MessagesCreate (thread_id s) prompt #
                 RunsCreate (thread_id s) (assistant_id s) #
                 log @ [MessagesList (thread_id s),
                        StError ''Failed to get response from assistant''])"
    using chat_input_handler_no_reply[of svc prompt s "Some []"] by simp
qed

theorem empty_reply_is_failure_witness:
  "get_assistant_response (scripted_service\<lparr>messages_list := Inr [[TextContent '''']]\<rparr>)
      ''Find all mentions of budget allocations'' ready_session =
     Some (Some '''',
           [MessagesCreate (Some ''thread_1'') ''Find all mentions of budget allocations'',
            RunsCreate (Some ''thread_1'') (Some ''asst_1''),
            Sleep 1, RunsRetrieve (Some ''thread_1'') ''run_1'',
            Sleep 1, RunsRetrieve (Some ''thread_1'') ''run_1'',
            Sleep 1, RunsRetrieve (Some ''thread_1'') ''run_1'',
            MessagesList (Some ''thread_1'')]) \<and>
   chat_input_handler (scripted_service\<lparr>messages_list := Inr [[TextContent '''']]\<rparr>)
      ''Find all mentions of budget allocations'' ready_session =
     Some (ready_session\<lparr>messages := messages ready_session @
              [\<lparr>role = ''user'', content = ''Find all mentions of budget allocations''\<rparr>]\<rparr>,
           [MessagesCreate (Some ''thread_1'') ''Find all mentions of budget allocations'',
            RunsCreate (Some ''thread_1'') (Some ''asst_1''),
            Sleep 1, RunsRetrieve (Some ''thread_1'') ''run_1'',
            Sleep 1, RunsRetrieve (Some ''thread_1'') ''run_1'',
            Sleep 1, RunsRetrieve (Some ''thread_1'') ''run_1'',
            MessagesList (Some ''thread_1''),
            StError ''Failed to get response from assistant''])"
proof -
  let ?svc = "scripted_service\<lparr>messages_list := Inr [[TextContent '''']]\<rparr>"
  have w: "wait_for_completion ?svc (thread_id ready_session) 0 (scripted_run 0) =
      Some (Inr (scripted_run 3),
            [Sleep 1, RunsRetrieve (Some ''thread_1'') ''run_1'',
             Sleep 1, RunsRetrieve (Some ''thread_1'') ''run_1'',
             Sleep 1, RunsRetrieve (Some ''thread_1'') ''run_1''])"
    by (simp add: wait_for_completion.simps scripted_service_def ready_session_def numeral_3_eq_3)
  have m: "messages_create ?svc = Inr ()"
    and c: "runs_create ?svc = Inr (scripted_run 0)"
    and l: "messages_list ?svc = Inr ((TextContent [] # []) # [])"
    by (simp_all add: scripted_service_def)
  have st: "status (scripted_run 3) = ''completed''" by (simp add: numeral_3_eq_3)
  from empty_reply_is_failure[OF m c w st l, of "''Find all mentions of budget allocations''"]
  show ?thesis by (simp add: ready_session_def)
qed

section \<open>Provisioning and setup\<close>

lemma create_files_effects:
  "x \<in> set (snd (create_files svc i fs)) \<Longrightarrow> \<exists>n c. x = FilesCreate n c"
  by (induction svc i fs rule: create_files.induct) (auto split: sum.splits prod.splits)

lemma create_files_raises:
  "j < length fs \<Longrightarrow> files_create svc (i + j) = Inl e \<Longrightarrow>
     \<exists>e'. fst (create_files svc i fs) = Inl e'"
proof (induction svc i fs arbitrary: j rule: create_files.induct)
  case (1 svc i)
  then show ?case by simp
next
  case (2 svc i fname fvalue fs)
  show ?case
  proof (cases "files_create svc i")
    case (Inl e')
    then show ?thesis by simp
  next
    case (Inr f)
    with "2.prems" obtain j' where j': "j = Suc j'" by (cases j) auto
    with "2.prems" have "j' < length fs" "files_create svc (Suc i + j') = Inl e" by auto
    from "2.IH"[OF Inr this] obtain e' where "fst (create_files svc (Suc i) fs) = Inl e'" ..
    with Inr show ?thesis by (auto split: prod.splits sum.splits)
  qed
qed

lemma upload_files_to_vector_store_cases:
  "(\<exists>e log. upload_files_to_vector_store svc fs s =
        (None, s, VectorStoresCreate # log @ [StError (''Error uploading files: '' @ e)]) \<and>
      (\<forall>x \<in> set log. (\<exists>n c. x = FilesCreate n c) \<or> (\<exists>v hs. x = UploadAndPoll v hs))) \<or>
   (\<exists>vs log. vector_stores_create svc = Inr vs \<and>
      upload_files_to_vector_store svc fs s = (Some vs, s\<lparr>vector_store_id := Some vs\<rparr>, log))"
proof (cases "vector_stores_create svc")
  case (Inl e)
  then have "upload_files_to_vector_store svc fs s =
      (None, s, VectorStoresCreate # [] @ [StError (''Error uploading files: '' @ e)])"
    by (simp add: upload_files_to_vector_store_def)
  then show ?thesis by (intro disjI1 exI[of _ e] exI[of _ "[]"]) simp
next
  case vs: (Inr vs)
  obtain res log where cf: "create_files svc 0 fs = (res, log)" by (cases "create_files svc 0 fs")
  have logfc: "\<forall>x \<in> set log. \<exists>n c. x = FilesCreate n c"
    using create_files_effects[of _ svc 0 fs] cf by auto
  show ?thesis
  proof (cases res)
    case (Inl e)
    with vs cf have "upload_files_to_vector_store svc fs s =
      (None, s, VectorStoresCreate # log @ [StError (''Error uploading files: '' @ e)])"
      by (simp add: upload_files_to_vector_store_def)
    with logfc show ?thesis by (intro disjI1 exI[of _ e] exI[of _ log]) auto
  next
    case hs: (Inr hs)
    show ?thesis
    proof (cases "upload_and_poll svc")
      case (Inl e)
      with vs cf hs have "upload_files_to_vector_store svc fs s =
        (None, s, VectorStoresCreate # (log @ [UploadAndPoll vs hs]) @
                    [StError (''Error uploading files: '' @ e)])"
        by (simp add: upload_files_to_vector_store_def)
      with logfc show ?thesis
        by (intro disjI1 exI[of _ e] exI[of _ "log @ [UploadAndPoll vs hs]"]) auto
    next
      case (Inr u)
      with vs cf hs show ?thesis by (simp add: upload_files_to_vector_store_def)
    qed
  qed
qed

lemma upload_files_to_vector_store_fails:
  assumes "(\<exists>e. vector_stores_create svc = Inl e) \<or>
           (\<exists>i<length fs. \<exists>e. files_create svc i = Inl e) \<or>
           (\<exists>e. upload_and_poll svc = Inl e)"
  shows "fst (upload_files_to_vector_store svc fs s) = None"
proof (cases "vector_stores_create svc")
  case (Inl e)
  then show ?thesis by (simp add: upload_files_to_vector_store_def)
next
  case vs: (Inr vs)
  with assms consider (files) i e where "i < length fs" "files_create svc i = Inl e"
    | (poll) e where "upload_and_poll svc = Inl e" by auto
  then show ?thesis
  proof cases
    case files
    from create_files_raises[of i fs svc 0 e] files
    obtain e' where "fst (create_files svc 0 fs) = Inl e'" by auto
    with vs show ?thesis
      by (auto simp add: upload_files_to_vector_store_def split: prod.splits sum.splits)
  next
    case poll
    with vs show ?thesis
      by (auto simp add: upload_files_to_vector_store_def split: prod.splits sum.splits)
  qed
qed

text \<open>
  C5 (as amended). When a call of the service raises during index provisioning (creating
  the vector store, creating one of the files, or attaching the files and waiting for the
  indexing), \<open>upload_files_to_vector_store\<close> reports the error
  \<open>Error uploading files: \<dots>\<close>, returns \<open>None\<close> and assigns no handle; the setup then
  stops with \<open>Failed to upload files\<close>: it issues no call that creates an assistant or a
  conversation, and the session state after it is the session state before it. So an
  index handle that was unset is still unset, and one that an earlier setup had set is
  still set, like the assistant and conversation handles of that setup.
\<close>

theorem failed_upload_halts_setup:
  assumes "(\<exists>e. vector_stores_create svc = Inl e) \<or>
           (\<exists>i<length uploaded_files. \<exists>e. files_create svc i = Inl e) \<or>
           (\<exists>e. upload_and_poll svc = Inl e)"
  shows "\<exists>e log.
           upload_files_to_vector_store svc uploaded_files s =
             (None, s, VectorStoresCreate # log @ [StError (''Error uploading files: '' @ e)]) \<and>
           setup_handler svc uploaded_files s =
             (s, VectorStoresCreate # log @ [StError (''Error uploading files: '' @ e),
                                             SidebarError ''Failed to upload files'']) \<and>
           ThreadsCreate \<notin> set log \<and> (\<forall>v. AssistantsCreate v \<notin> set log)"
proof -
  have none: "fst (upload_files_to_vector_store svc uploaded_files s) = None"
    using assms by (rule upload_files_to_vector_store_fails)
  with upload_files_to_vector_store_cases[of svc uploaded_files s]
  obtain e log where up: "upload_files_to_vector_store svc uploaded_files s =
        (None, s, VectorStoresCreate # log @ [StError (''Error uploading files: '' @ e)])"
    and log: "\<forall>x \<in> set log. (\<exists>n c. x = FilesCreate n c) \<or> (\<exists>v hs. x = UploadAndPoll v hs)"
    by auto
  from up have "setup_handler svc uploaded_files s =
             (s, VectorStoresCreate # log @ [StError (''Error uploading files: '' @ e),
                                             SidebarError ''Failed to upload files''])"
    by (simp add: setup_handler_def)
  moreover from log have "ThreadsCreate \<notin> set log" "\<forall>v. AssistantsCreate v \<notin> set log"
    by auto
  ultimately show ?thesis using up by blast
qed

theorem failed_upload_halts_setup_witness:
  "setup_handler (scripted_service\<lparr>files_create := (\<lambda>i. if i = 1 then Inl ''Invalid file format.''
                                                            else Inr ''file_1'')\<rparr>)
     [(''report.pdf'', ''%PDF''), (''customers.csv'', ''id,name'')] initial_session_state =
     (initial_session_state,
      [VectorStoresCreate, FilesCreate ''report.pdf'' ''%PDF'',
       FilesCreate ''customers.csv'' ''id,name'',
       StError ''Error uploading files: Invalid file format.'',
       SidebarError ''Failed to upload files''])"
proof -
  let ?svc = "scripted_service\<lparr>files_create := (\<lambda>i. if i = 1 then Inl ''Invalid file format.''
                                                            else Inr ''file_1'')\<rparr>"
  let ?fs = "[(''report.pdf'', ''%PDF''), (''customers.csv'', ''id,name'')]"
  have "\<exists>i<length ?fs. \<exists>e. files_create ?svc i = Inl e"
    by (intro exI[of _ 1]) simp
  then have "(\<exists>e. vector_stores_create ?svc = Inl e) \<or>
           (\<exists>i<length ?fs. \<exists>e. files_create ?svc i = Inl e) \<or>
           (\<exists>e. upload_and_poll ?svc = Inl e)" by blast
  from failed_upload_halts_setup[OF this, of initial_session_state]
  have "fst (setup_handler ?svc ?fs initial_session_state) = initial_session_state"
    by auto
  moreover have "snd (setup_handler ?svc ?fs initial_session_state) =
      [VectorStoresCreate, FilesCreate ''report.pdf'' ''%PDF'',
       FilesCreate ''customers.csv'' ''id,name'',
       StError ''Error uploading files: Invalid file format.'',
       SidebarError ''Failed to upload files'']"
    by (simp add: setup_handler_def upload_files_to_vector_store_def scripted_service_def)
  ultimately show ?thesis by (simp add: prod_eq_iff)
qed

text \<open>
  C5 as stated fails when the setup is run again in a session that is already set up: the
  failed index provisioning leaves all three handles set, to their previous values.
\<close>

theorem failed_upload_keeps_handles_counterexample:
  "script_run (scripted_service\<lparr>vector_stores_create := Inl ''Connection error.''\<rparr>)
      (SetupRAG [(''report.pdf'', ''%PDF'')]) ready_session =
     Some (ready_session,
           [VectorStoresCreate, StError ''Error uploading files: Connection error.'',
            SidebarError ''Failed to upload files'']) \<and>
   vector_store_id ready_session = Some ''vs_1'' \<and>
   assistant_id ready_session = Some ''asst_1'' \<and>
   thread_id ready_session = Some ''thread_1''"
  by (simp add: setup_handler_def upload_files_to_vector_store_def scripted_service_def
      ready_session_def)

section \<open>Handles in the session state\<close>

lemma chat_input_handler_handles:
  assumes "chat_input_handler svc prompt s = Some (s', log)"
  shows "assistant_id s' = assistant_id s \<and> thread_id s' = thread_id s \<and>
         vector_store_id s' = vector_store_id s"
  using assms
  by (auto simp add: chat_input_handler_def Let_def split: option.splits prod.splits if_splits)

lemma create_thread_state:
  "fst (snd (create_thread svc s)) =
     (case threads_create svc of Inl e \<Rightarrow> s | Inr t \<Rightarrow> s\<lparr>thread_id := Some t\<rparr>)"
  by (simp add: create_thread_def split: sum.splits)

lemma clear_chat_handler_state:
  "fst (clear_chat_handler svc s) =
     (case threads_create svc of
        Inl e \<Rightarrow> s\<lparr>messages := []\<rparr>
      | Inr t \<Rightarrow> s\<lparr>messages := [], thread_id := Some t\<rparr>)"
  by (simp add: clear_chat_handler_def create_thread_def split: sum.splits)

text \<open>The session state a setup leaves: the handles assigned so far, in order.\<close>

lemma setup_handler_state:
  "fst (setup_handler svc fs s) = s \<or>
   (\<exists>vs. vector_stores_create svc = Inr vs \<and>
      (fst (setup_handler svc fs s) = s\<lparr>vector_store_id := Some vs\<rparr> \<or>
       (\<exists>a. assistants_create svc = Inr a \<and>
          (fst (setup_handler svc fs s) = s\<lparr>vector_store_id := Some vs, assistant_id := Some a\<rparr> \<or>
           (\<exists>t. threads_create svc = Inr t \<and>
              fst (setup_handler svc fs s) =
                s\<lparr>vector_store_id := Some vs, assistant_id := Some a, thread_id := Some t\<rparr>)))))"
proof -
  from upload_files_to_vector_store_cases[of svc fs s]
  consider (fail) e log where "upload_files_to_vector_store svc fs s =
        (None, s, VectorStoresCreate # log @ [StError (''Error uploading files: '' @ e)])"
    | (ok) vs log where "vector_stores_create svc = Inr vs"
        "upload_files_to_vector_store svc fs s = (Some vs, s\<lparr>vector_store_id := Some vs\<rparr>, log)"
    by blast
  then show ?thesis
  proof cases
    case fail
    then show ?thesis by (simp add: setup_handler_def)
  next
    case ok
    then show ?thesis
      by (auto simp add: setup_handler_def create_assistant_def create_thread_def
          split: sum.splits)
  qed
qed

lemma setup_handler_handles_prefix:
  "handles_prefix s \<Longrightarrow> handles_prefix (fst (setup_handler svc fs s))"
  using setup_handler_state[of svc fs s] by (auto simp add: handles_prefix_def)

lemma truthy_set: "truthy h \<Longrightarrow> h \<noteq> None"
  by (cases h) simp_all

lemma script_run_handles_prefix:
  assumes "script_run svc act s = Some (s', log)" and "handles_prefix s"
  shows "handles_prefix s'"
proof (cases act)
  case (SetupRAG fs)
  with assms setup_handler_handles_prefix[of s svc fs] show ?thesis
    by (auto split: if_splits)
next
  case (ChatInput prompt)
  with assms chat_input_handler_handles[of svc prompt s s' log] show ?thesis
    by (auto simp add: handles_prefix_def split: if_splits)
next
  case ClearChat
  show ?thesis
  proof (cases "chat_interface_shown s")
    case True
    with ClearChat assms have s': "s' = fst (clear_chat_handler svc s)" by auto
    from True have "assistant_id s \<noteq> None"
      by (simp add: chat_interface_shown_def truthy_set)
    with assms(2) show ?thesis unfolding s'
      by (auto simp add: handles_prefix_def clear_chat_handler_state split: sum.splits)
  next
    case False
    with ClearChat assms show ?thesis by simp
  qed
next
  case NoAction
  with assms show ?thesis by simp
qed

lemma script_runs_handles_prefix:
  "script_runs runs s = Some s' \<Longrightarrow> handles_prefix s \<Longrightarrow> handles_prefix s'"
proof (induction runs arbitrary: s)
  case Nil
  then show ?case by simp
next
  case (Cons x runs)
  obtain svc act where x: "x = (svc, act)" by (cases x)
  with Cons.prems obtain s1 log where 1: "script_run svc act s = Some (s1, log)"
    and 2: "script_runs runs s1 = Some s'"
    by (auto split: option.splits)
  show ?case by (rule Cons.IH[OF 2 script_run_handles_prefix[OF 1 Cons.prems(2)]])
qed

lemma setup_runs_return:
  "\<forall>(svc, act) \<in> set runs. \<exists>fs. act = SetupRAG fs \<Longrightarrow> \<exists>s'. script_runs runs s = Some s'"
proof (induction runs arbitrary: s)
  case Nil
  then show ?case by simp
next
  case (Cons x runs)
  obtain svc act where x: "x = (svc, act)" by (cases x)
  with Cons.prems obtain fs where act: "act = SetupRAG fs" by auto
  have "\<exists>s1 log. script_run svc act s = Some (s1, log)"
    using act by (cases "setup_handler svc fs s") simp
  then obtain s1 log where 1: "script_run svc act s = Some (s1, log)" by blast
  from Cons.IH[of s1] Cons.prems obtain s' where "script_runs runs s1 = Some s'" by auto
  with x 1 show ?case by simp
qed

text \<open>
  C3. After every sequence of setup invocations, whatever steps fail in them, the setups
  all return and the handles that are set in the session state form a prefix of (index,
  assistant, conversation): the assistant handle is not set while the index handle is
  unset, and the conversation handle is not set while the assistant handle is unset.
\<close>

theorem setup_handles_form_prefix:
  assumes "\<forall>(svc, act) \<in> set runs. \<exists>uploaded_files. act = SetupRAG uploaded_files"
  shows "\<exists>s'. script_runs runs initial_session_state = Some s' \<and> handles_prefix s'"
proof -
  from setup_runs_return[OF assms] obtain s' where
    s': "script_runs runs initial_session_state = Some s'" ..
  have "handles_prefix initial_session_state"
    by (simp add: handles_prefix_def initial_session_state_def)
  from script_runs_handles_prefix[OF s' this] s' show ?thesis by blast
qed

theorem setup_handles_form_prefix_witness:
  "script_runs
     [(scripted_service\<lparr>assistants_create := Inl ''Rate limit reached.''\<rparr>,
       SetupRAG [(''report.pdf'', ''%PDF'')]),
      (scripted_service\<lparr>vector_stores_create := Inl ''Connection error.''\<rparr>,
       SetupRAG [(''report.pdf'', ''%PDF'')])]
     initial_session_state =
     Some \<lparr>messages = [], assistant_id = None, thread_id = None,
           vector_store_id = Some ''vs_2''\<rparr> \<and>
   handles_prefix \<lparr>messages = [], assistant_id = None, thread_id = None,
                    vector_store_id = Some ''vs_2''\<rparr>"
proof -
  let ?runs = "[(scripted_service\<lparr>assistants_create := Inl ''Rate limit reached.''\<rparr>,
       SetupRAG [(''report.pdf'', ''%PDF'')]),
      (scripted_service\<lparr>vector_stores_create := Inl ''Connection error.''\<rparr>,
       SetupRAG [(''report.pdf'', ''%PDF'')])]"
  have run: "script_runs ?runs initial_session_state =
     Some \<lparr>messages = [], assistant_id = None, thread_id = None,
           vector_store_id = Some ''vs_2''\<rparr>"
    by (simp add: setup_handler_def upload_files_to_vector_store_def create_assistant_def
        scripted_service_def initial_session_state_def)
  have "\<forall>(svc, act) \<in> set ?runs. \<exists>uploaded_files. act = SetupRAG uploaded_files" by simp
  from setup_handles_form_prefix[OF this] run show ?thesis by simp
qed

lemma script_run_handles:
  assumes "script_run svc act s = Some (s', log)"
  shows "(vector_store_id s' = vector_store_id s \<or>
            (\<exists>v. vector_stores_create svc = Inr v \<and> vector_store_id s' = Some v)) \<and>
         (assistant_id s' = assistant_id s \<or>
            (\<exists>a. assistants_create svc = Inr a \<and> assistant_id s' = Some a)) \<and>
         (thread_id s' = thread_id s \<or>
            (\<exists>t. threads_create svc = Inr t \<and> thread_id s' = Some t))"
proof (cases act)
  case (SetupRAG fs)
  with assms have "s' = s \<or> s' = fst (setup_handler svc fs s)" by (auto split: if_splits)
  with setup_handler_state[of svc fs s] show ?thesis by auto
next
  case (ChatInput prompt)
  with assms chat_input_handler_handles[of svc prompt s s' log] show ?thesis
    by (auto split: if_splits)
next
  case ClearChat
  with assms have "s' = s \<or> s' = fst (clear_chat_handler svc s)" by (auto split: if_splits)
  then show ?thesis by (auto simp add: clear_chat_handler_state split: sum.splits)
next
  case NoAction
  with assms show ?thesis by simp
qed

text \<open>
  C9. No execution of the script resets a handle: each of the three handles that is set
  before is set after. A handle whose creation call raises keeps the value it had, so
  does the whole session state when a setup fails in index provisioning, and so does the
  conversation handle when the thread creation of the clear button fails; the status
  panel then shows what it showed before.
\<close>

theorem handles_never_reset:
  assumes "script_run svc act s = Some (s', log)"
  shows "(vector_store_id s \<noteq> None \<longrightarrow> vector_store_id s' \<noteq> None) \<and>
         (assistant_id s \<noteq> None \<longrightarrow> assistant_id s' \<noteq> None) \<and>
         (thread_id s \<noteq> None \<longrightarrow> thread_id s' \<noteq> None) \<and>
         ((\<exists>e. vector_stores_create svc = Inl e) \<longrightarrow> vector_store_id s' = vector_store_id s) \<and>
         ((\<exists>e. assistants_create svc = Inl e) \<longrightarrow> assistant_id s' = assistant_id s) \<and>
         ((\<exists>e. threads_create svc = Inl e) \<longrightarrow> thread_id s' = thread_id s) \<and>
         (\<forall>uploaded_files. act = SetupRAG uploaded_files \<and>
              ((\<exists>e. vector_stores_create svc = Inl e) \<or>
               (\<exists>i<length uploaded_files. \<exists>e. files_create svc i = Inl e) \<or>
               (\<exists>e. upload_and_poll svc = Inl e)) \<longrightarrow>
            s' = s \<and> status_panel s' = status_panel s) \<and>
         (act = ClearChat \<and> (\<exists>e. threads_create svc = Inl e) \<longrightarrow>
            thread_id s' = thread_id s \<and> status_panel s' = status_panel s)"
proof -
  note h = script_run_handles[OF assms]
  have up: "s' = s" if "act = SetupRAG fs"
    "(\<exists>e. vector_stores_create svc = Inl e) \<or>
     (\<exists>i<length fs. \<exists>e. files_create svc i = Inl e) \<or>
     (\<exists>e. upload_and_poll svc = Inl e)" for fs
  proof -
    from upload_files_to_vector_store_fails[OF that(2), of s]
      upload_files_to_vector_store_cases[of svc fs s]
    obtain e l where "upload_files_to_vector_store svc fs s =
        (None, s, VectorStoresCreate # l @ [StError (''Error uploading files: '' @ e)])"
      by auto
    then have "fst (setup_handler svc fs s) = s" by (simp add: setup_handler_def)
    with assms that(1) show ?thesis by (auto split: if_splits)
  qed
  have cl: "status_panel s' = status_panel s" if "act = ClearChat" "threads_create svc = Inl e" for e
  proof -
    from assms that have "s' = s \<or> s' = fst (clear_chat_handler svc s)"
      by (auto split: if_splits)
    with that(2) show ?thesis by (auto simp add: clear_chat_handler_state status_panel_def)
  qed
  from h up cl show ?thesis by (auto simp add: status_panel_def)
qed

theorem handles_never_reset_witness:
  "script_run (scripted_service\<lparr>assistants_create := Inl ''Rate limit reached.''\<rparr>)
      (SetupRAG [(''report.pdf'', ''%PDF'')]) ready_session =
     Some (ready_session\<lparr>vector_store_id := Some ''vs_2''\<rparr>,
           [VectorStoresCreate, FilesCreate ''report.pdf'' ''%PDF'',
            UploadAndPoll ''vs_2'' [''file_1''], AssistantsCreate ''vs_2'',
            StError ''Error creating assistant: Rate limit reached.'',
            SidebarError ''Failed to create assistant'']) \<and>
   vector_store_id (ready_session\<lparr>vector_store_id := Some ''vs_2''\<rparr>) \<noteq> None \<and>
   assistant_id (ready_session\<lparr>vector_store_id := Some ''vs_2''\<rparr>) = assistant_id ready_session \<and>
   assistant_id (ready_session\<lparr>vector_store_id := Some ''vs_2''\<rparr>) \<noteq> None \<and>
   thread_id (ready_session\<lparr>vector_store_id := Some ''vs_2''\<rparr>) \<noteq> None"
proof -
  let ?svc = "scripted_service\<lparr>assistants_create := Inl ''Rate limit reached.''\<rparr>"
  have run: "script_run ?svc (SetupRAG [(''report.pdf'', ''%PDF'')]) ready_session =
     Some (ready_session\<lparr>vector_store_id := Some ''vs_2''\<rparr>,
           [VectorStoresCreate, FilesCreate ''report.pdf'' ''%PDF'',
            UploadAndPoll ''vs_2'' [''file_1''], AssistantsCreate ''vs_2'',
            StError ''Error creating assistant: Rate limit reached.'',
            SidebarError ''Failed to create assistant''])"
    by (simp add: setup_handler_def upload_files_to_vector_store_def create_assistant_def
        scripted_service_def)
  have set: "vector_store_id ready_session \<noteq> None" "assistant_id ready_session \<noteq> None"
    "thread_id ready_session \<noteq> None" "\<exists>e. assistants_create ?svc = Inl e"
    by (simp_all add: ready_session_def)
  from handles_never_reset[OF run] set run show ?thesis by blast
qed

lemma script_runs_thread_id:
  "script_runs runs s = Some s' \<Longrightarrow> thread_id s \<noteq> Some h \<Longrightarrow>
   \<forall>(svc, act) \<in> set runs. threads_create svc \<noteq> Inr h \<Longrightarrow> thread_id s' \<noteq> Some h"
proof (induction runs arbitrary: s)
  case Nil
  then show ?case by simp
next
  case (Cons x runs)
  obtain svc act where x: "x = (svc, act)" by (cases x)
  with Cons.prems obtain s1 log where 1: "script_run svc act s = Some (s1, log)"
    and 2: "script_runs runs s1 = Some s'"
    by (auto split: option.splits)
  from x Cons.prems(3) have fresh: "threads_create svc \<noteq> Inr h"
    and rest: "\<forall>(svc, act) \<in> set runs. threads_create svc \<noteq> Inr h" by auto
  from script_run_handles[OF 1] Cons.prems(2) fresh have "thread_id s1 \<noteq> Some h" by auto
  from Cons.IH[OF 2 this rest] show ?case .
qed

text \<open>
  C6 (as amended). The clear button always empties the chat history. When the service
  returns a conversation handle, that handle replaces the previous one in the session
  state; if it differs from the previous one, the previous one is not in the session
  state after any further executions of the script in which the service does not issue
  it again. When the creation of the conversation raises, the error is reported and the
  previous conversation handle stays in the session state.
\<close>

theorem clear_chat_replaces_thread:
  assumes "thread_id s = Some h"
  shows "messages (fst (clear_chat_handler svc s)) = [] \<and>
         (\<forall>t. threads_create svc = Inr t \<longrightarrow>
            clear_chat_handler svc s = (s\<lparr>messages := [], thread_id := Some t\<rparr>, [ThreadsCreate]) \<and>
            (t \<noteq> h \<longrightarrow>
               (\<forall>runs s'. (\<forall>(svc', act) \<in> set runs. threads_create svc' \<noteq> Inr h) \<and>
                    script_runs runs (fst (clear_chat_handler svc s)) = Some s' \<longrightarrow>
                  thread_id s' \<noteq> Some h))) \<and>
         (\<forall>e. threads_create svc = Inl e \<longrightarrow>
            clear_chat_handler svc s =
              (s\<lparr>messages := []\<rparr>, [ThreadsCreate, StError (''Error creating thread: '' @ e)]))"
proof (intro conjI allI impI)
  show "messages (fst (clear_chat_handler svc s)) = []"
    by (simp add: clear_chat_handler_state split: sum.splits)
next
  fix t assume "threads_create svc = Inr t"
  then show "clear_chat_handler svc s = (s\<lparr>messages := [], thread_id := Some t\<rparr>, [ThreadsCreate])"
    by (simp add: clear_chat_handler_def create_thread_def)
next
  fix t runs s'
  assume t: "threads_create svc = Inr t" "t \<noteq> h"
    and r: "(\<forall>(svc', act) \<in> set runs. threads_create svc' \<noteq> Inr h) \<and>
         script_runs runs (fst (clear_chat_handler svc s)) = Some s'"
  from t have "thread_id (fst (clear_chat_handler svc s)) \<noteq> Some h"
    by (simp add: clear_chat_handler_state)
  with r show "thread_id s' \<noteq> Some h"
    using script_runs_thread_id[of runs "fst (clear_chat_handler svc s)" s' h] by blast
next
  fix e assume "threads_create svc = Inl e"
  then show "clear_chat_handler svc s =
      (s\<lparr>messages := []\<rparr>, [ThreadsCreate, StError (''Error creating thread: '' @ e)])"
    by (simp add: clear_chat_handler_def create_thread_def)
qed

theorem clear_chat_replaces_thread_witness:
  "clear_chat_handler scripted_service ready_session =
     (ready_session\<lparr>messages := [], thread_id := Some ''thread_2''\<rparr>, [ThreadsCreate]) \<and>
   script_runs [(scripted_service\<lparr>threads_create := Inr ''thread_3''\<rparr>, ClearChat)]
     (fst (clear_chat_handler scripted_service ready_session)) =
     Some (ready_session\<lparr>messages := [], thread_id := Some ''thread_3''\<rparr>) \<and>
   thread_id (ready_session\<lparr>messages := [], thread_id := Some ''thread_3''\<rparr>) \<noteq> Some ''thread_1''"
proof -
  let ?runs = "[(scripted_service\<lparr>threads_create := Inr ''thread_3''\<rparr>, ClearChat)]"
  have old: "thread_id ready_session = Some ''thread_1''" by (simp add: ready_session_def)
  have new: "threads_create scripted_service = Inr ''thread_2''" "''thread_2'' \<noteq> ''thread_1''"
    by (simp_all add: scripted_service_def)
  have fresh: "\<forall>(svc', act) \<in> set ?runs. threads_create svc' \<noteq> Inr ''thread_1''" by simp
  have run: "script_runs ?runs (fst (clear_chat_handler scripted_service ready_session)) =
     Some (ready_session\<lparr>messages := [], thread_id := Some ''thread_3''\<rparr>)"
    by (simp add: clear_chat_handler_def create_thread_def chat_interface_shown_def
        scripted_service_def ready_session_def)
  from clear_chat_replaces_thread[OF old, of scripted_service] new fresh run
  show ?thesis by blast
qed

text \<open>
  C6 as stated fails: when the creation of the new conversation raises, the clear button
  empties the history and leaves the previous conversation handle in the session state.
\<close>

theorem clear_chat_keeps_thread_counterexample:
  "script_run (scripted_service\<lparr>threads_create := Inl ''Connection error.''\<rparr>) ClearChat
      ready_session =
     Some (ready_session\<lparr>messages := []\<rparr>,
           [ThreadsCreate, StError ''Error creating thread: Connection error.'']) \<and>
   thread_id (ready_session\<lparr>messages := []\<rparr>) = Some ''thread_1'' \<and>
   thread_id ready_session = Some ''thread_1''"
  by (simp add: clear_chat_handler_def create_thread_def chat_interface_shown_def
      scripted_service_def ready_session_def)

end
